theory Spec2Isabelle
  imports Complex_Main "HOL-Library.Multiset"
begin

section \<open>Text\<close>

text \<open>
  The script reads the ledger with \<^verbatim>\<open>csv.reader\<close>, so every cell is a Python \<^verbatim>\<open>str\<close>.
  A cell is modelled as a \<^typ>\<open>string\<close> holding the UTF-8 bytes of the text. On ASCII
  text the operations below are Python's. Characters outside ASCII are kept as opaque
  bytes: they are neither white space, nor upper case, nor digits, nor word characters
  (Python's Unicode-aware \<^verbatim>\<open>strip\<close>, \<^verbatim>\<open>lower\<close>, \<^verbatim>\<open>\d\<close> and \<^verbatim>\<open>\b\<close> are modelled on ASCII only).
\<close>

definition is_space :: "char \<Rightarrow> bool" where
  "is_space c \<longleftrightarrow>
     c \<in> set [CHR 0x09, CHR 0x0A, CHR 0x0B, CHR 0x0C, CHR 0x0D,
                CHR 0x1C, CHR 0x1D, CHR 0x1E, CHR 0x1F, CHR '' '']"

definition is_digit :: "char \<Rightarrow> bool" where
  "is_digit c \<longleftrightarrow> c \<in> set ''0123456789''"

definition is_word_char :: "char \<Rightarrow> bool" where
  "is_word_char c \<longleftrightarrow>
     c \<in> set (''abcdefghijklmnopqrstuvwxyz'' @ ''ABCDEFGHIJKLMNOPQRSTUVWXYZ'' @ ''0123456789_'')"

definition lower_char :: "char \<Rightarrow> char" where
  "lower_char c =
     (case map_of (zip ''ABCDEFGHIJKLMNOPQRSTUVWXYZ'' ''abcdefghijklmnopqrstuvwxyz'') c of
        None \<Rightarrow> c
      | Some l \<Rightarrow> l)"

text \<open>\<^verbatim>\<open>s.lower()\<close> and \<^verbatim>\<open>s.strip()\<close>.\<close>

definition lower :: "string \<Rightarrow> string" where
  "lower s = map lower_char s"

definition strip :: "string \<Rightarrow> string" where
  "strip s = rev (dropWhile is_space (rev (dropWhile is_space s)))"

text \<open>\<^verbatim>\<open>sep.join(xs)\<close>.\<close>

fun join :: "string \<Rightarrow> string list \<Rightarrow> string" where
  "join sep [] = []"
| "join sep [x] = x"
| "join sep (x # y # ys) = x @ sep @ join sep (y # ys)"

text \<open>\<^verbatim>\<open>k in s\<close> on strings: \<open>k\<close> occurs in \<open>s\<close> as a contiguous run.\<close>

fun starts_with :: "string \<Rightarrow> string \<Rightarrow> bool" where
  "starts_with [] s = True"
| "starts_with (k # ks) [] = False"
| "starts_with (k # ks) (c # cs) = (k = c \<and> starts_with ks cs)"

fun contains :: "string \<Rightarrow> string \<Rightarrow> bool" where
  "contains k [] = (k = [])"
| "contains k (c # cs) = (starts_with k (c # cs) \<or> contains k cs)"

text \<open>
  \<^verbatim>\<open>c.encode("utf-8").decode("utf-8-sig")\<close>: the codec drops one byte-order mark
  (the bytes EF BB BF) when the text starts with it.
\<close>

definition bom :: string where
  "bom = [CHR 0xEF, CHR 0xBB, CHR 0xBF]"

definition decode_utf8_sig :: "string \<Rightarrow> string" where
  "decode_utf8_sig s = (if starts_with bom s then drop 3 s else s)"

section \<open>Locating the header row\<close>

text \<open>
  \<^verbatim>\<open>
  header_row_idx = None
  for idx, row in enumerate(rows):
      lowered = [c.strip().lower() for c in row]
      joined  = " ".join(lowered)
      if ("date" in joined) and any(k in joined for k in ("particular", "narration", "description")):
          header_row_idx = idx
          break
  \<close>
\<close>

definition joined_row :: "string list \<Rightarrow> string" where
  "joined_row row = join '' '' (map (\<lambda>c. lower (strip c)) row)"

definition is_header_row :: "string list \<Rightarrow> bool" where
  "is_header_row row \<longleftrightarrow>
     (let joined = joined_row row
      in contains ''date'' joined \<and>
         list_ex (\<lambda>k. contains k joined) [''particular'', ''narration'', ''description''])"

fun header_scan :: "nat \<Rightarrow> string list list \<Rightarrow> nat option" where
  "header_scan idx [] = None"
| "header_scan idx (row # rest) =
     (if is_header_row row then Some idx else header_scan (Suc idx) rest)"

definition header_row_idx :: "string list list \<Rightarrow> nat option" where
  "header_row_idx rows = header_scan 0 rows"

text \<open>
  The same scan with the description tokens as section 4.2 of the specification words
  them (description, narration, summary-of-transaction), for comparison with the code.
\<close>

definition spec_is_header_row :: "string list \<Rightarrow> bool" where
  "spec_is_header_row row \<longleftrightarrow>
     (let joined = joined_row row
      in contains ''date'' joined \<and>
         list_ex (\<lambda>k. contains k joined)
           [''description'', ''narration'', ''summary-of-transaction''])"

fun spec_header_scan :: "nat \<Rightarrow> string list list \<Rightarrow> nat option" where
  "spec_header_scan idx [] = None"
| "spec_header_scan idx (row # rest) =
     (if spec_is_header_row row then Some idx else spec_header_scan (Suc idx) rest)"

section \<open>Resolving columns\<close>

text \<open>
  The keyword lists of the script use a small part of Python's regular expressions:
  literal characters, an optional character out of a class (\<^verbatim>\<open>[._ ]?\<close>), the word
  boundary \<^verbatim>\<open>\b\<close> and the start anchor \<^verbatim>\<open>^\<close>. A keyword is a sequence of such atoms;
  \<^verbatim>\<open>"|".join(keywords)\<close> is the alternation of the keywords.
\<close>

datatype atom = Ch char | OptOneOf "char list" | WordB | Bol

type_synonym keyword = "atom list"

definition lit :: "string \<Rightarrow> keyword" where
  "lit s = map Ch s"

text \<open>
  \<^verbatim>\<open>\b\<close> holds between a word character and a non-word character, the two ends of the
  text counting as non-word. \<open>prev\<close> is the character before the position, if any.
\<close>

definition at_boundary :: "char option \<Rightarrow> string \<Rightarrow> bool" where
  "at_boundary prev s \<longleftrightarrow>
     (case prev of None \<Rightarrow> False | Some c \<Rightarrow> is_word_char c) \<noteq>
     (case s of [] \<Rightarrow> False | c # _ \<Rightarrow> is_word_char c)"

fun match_here :: "keyword \<Rightarrow> char option \<Rightarrow> string \<Rightarrow> bool" where
  "match_here [] prev s = True"
| "match_here (Ch c # as) prev s =
     (case s of [] \<Rightarrow> False | x # xs \<Rightarrow> x = c \<and> match_here as (Some x) xs)"
| "match_here (OptOneOf cs # as) prev s =
     ((case s of [] \<Rightarrow> False | x # xs \<Rightarrow> x \<in> set cs \<and> match_here as (Some x) xs) \<or>
      match_here as prev s)"
| "match_here (WordB # as) prev s = (at_boundary prev s \<and> match_here as prev s)"
| "match_here (Bol # as) prev s = (prev = None \<and> match_here as prev s)"

text \<open>\<^verbatim>\<open>re.compile("|".join(keywords)).search(c)\<close>: some alternative matches at some position.\<close>

fun search_from :: "keyword list \<Rightarrow> char option \<Rightarrow> string \<Rightarrow> bool" where
  "search_from kws prev [] = list_ex (\<lambda>k. match_here k prev []) kws"
| "search_from kws prev (x # xs) =
     (list_ex (\<lambda>k. match_here k prev (x # xs)) kws \<or> search_from kws (Some x) xs)"

definition pat_search :: "keyword list \<Rightarrow> string \<Rightarrow> bool" where
  "pat_search kws c = search_from kws None c"

text \<open>
  \<^verbatim>\<open>
  def find(keywords, mandatory=True):
      pat = re.compile("|".join(keywords))
      matches = [c for c in df.columns if pat.search(c)]
      if matches:
          return matches[0]
      if mandatory:
          print(f"... Couldn't find a column containing any of {keywords}")
          print("Detected headers:", header, sep="\n  * ")
          sys.exit(1)
      return None
  \<close>
  \<open>df.columns\<close> is the header the table was built with. The two printed lines are kept
  as the payload of the failure.

  The ways a run ends before the write step: no header row (\<^verbatim>\<open>sys.exit\<close> with a message),
  \<^verbatim>\<open>ValueError\<close> from \<^verbatim>\<open>pd.DataFrame\<close> when the data rows do not fit the header, and a
  mandatory field without a column (\<^verbatim>\<open>sys.exit(1)\<close>). \<open>Ambiguous_columns\<close> is not an exit of
  the script: it marks the tables the model of the later steps does not cover (see
  \<open>labels_unambiguous\<close> below).
\<close>

datatype failure =
    Header_not_found
  | Frame_mismatch
  | Column_not_found "keyword list" "string list"
  | Ambiguous_columns

definition find :: "string list \<Rightarrow> keyword list \<Rightarrow> bool \<Rightarrow> failure + string option" where
  "find columns keywords mandatory =
     (case filter (pat_search keywords) columns of
        m # _ \<Rightarrow> Inr (Some m)
      | [] \<Rightarrow> if mandatory then Inl (Column_not_found keywords columns) else Inr None)"


text \<open>The keyword lists of section 4 of the script.\<close>

definition slno_keywords :: "keyword list" where
  "slno_keywords =
     [ WordB # lit ''sl'' @ [WordB],
       WordB # Ch CHR ''s'' # OptOneOf ''._ '' # lit ''no'' @ [WordB],
       WordB # lit ''serial'' @ [WordB],
       WordB # lit ''sr'' @ [WordB],
       WordB # lit ''index'' @ [WordB],
       Bol # lit ''unnamed'' ]"

definition date_keywords :: "keyword list" where
  "date_keywords = [lit ''date'']"

definition parti_keywords :: "keyword list" where
  "parti_keywords = [lit ''particular'', lit ''narration'', lit ''description'']"

definition withdraw_keywords :: "keyword list" where
  "withdraw_keywords = [lit ''withdraw'', lit ''debit'']"

definition deposit_keywords :: "keyword list" where
  "deposit_keywords = [lit ''deposit'', lit ''credit'']"

record binding =
  slno_col :: "string option"
  date_col :: string
  particol :: string
  withdraw_col :: string
  deposit_col :: string

text \<open>
  The five calls of \<^verbatim>\<open>find\<close>, in the script's order; the first mandatory field without a
  column ends the run. A mandatory \<^const>\<open>find\<close> never returns \<open>Inr None\<close>; that branch is
  written out as the same failure.
\<close>

definition mandatory_col :: "string list \<Rightarrow> keyword list \<Rightarrow> failure + string" where
  "mandatory_col columns keywords =
     (case find columns keywords True of
        Inl e \<Rightarrow> Inl e
      | Inr None \<Rightarrow> Inl (Column_not_found keywords columns)
      | Inr (Some c) \<Rightarrow> Inr c)"

definition identify_columns :: "string list \<Rightarrow> failure + binding" where
  "identify_columns columns =
     (case find columns slno_keywords False of
        Inl e \<Rightarrow> Inl e
      | Inr sl \<Rightarrow>
     (case mandatory_col columns date_keywords of
        Inl e \<Rightarrow> Inl e
      | Inr d \<Rightarrow>
     (case mandatory_col columns parti_keywords of
        Inl e \<Rightarrow> Inl e
      | Inr p \<Rightarrow>
     (case mandatory_col columns withdraw_keywords of
        Inl e \<Rightarrow> Inl e
      | Inr w \<Rightarrow>
     (case mandatory_col columns deposit_keywords of
        Inl e \<Rightarrow> Inl e
      | Inr dp \<Rightarrow>
          Inr \<lparr>slno_col = sl, date_col = d, particol = p,
               withdraw_col = w, deposit_col = dp\<rparr>)))))"

section \<open>The table\<close>

text \<open>
  \<^verbatim>\<open>pd.DataFrame(data, columns=header)\<close> on a list of rows: pandas widens every row to the
  longest one, filling with \<^verbatim>\<open>None\<close>, and raises \<^verbatim>\<open>ValueError\<close> when that width is not the
  number of column names; with no data row at all the table is empty. A cell of the
  table is therefore a text or \<^verbatim>\<open>None\<close>.
\<close>

type_synonym cell = "string option"

definition pad :: "nat \<Rightarrow> string list \<Rightarrow> cell list" where
  "pad n row = map Some row @ replicate (n - length row) None"

definition data_frame :: "string list list \<Rightarrow> string list \<Rightarrow> failure + cell list list" where
  "data_frame data columns =
     (if data = [] then Inr []
      else if fold max (map length data) 0 \<noteq> length columns then Inl Frame_mismatch
      else Inr (map (pad (length columns)) data))"

text \<open>\<^verbatim>\<open>.dropna(how="all")\<close>: a row goes when every cell of it is missing.\<close>

definition dropna_all :: "cell list list \<Rightarrow> cell list list" where
  "dropna_all df = filter (list_ex (\<lambda>c. c \<noteq> None)) df"

text \<open>
  Section 2 of the script: locate the header, normalise its cells, take the rows after
  it as data, build the table.
\<close>

definition load :: "string list list \<Rightarrow> failure + (string list \<times> cell list list)" where
  "load rows =
     (case header_row_idx rows of
        None \<Rightarrow> Inl Header_not_found
      | Some i \<Rightarrow>
          (let header = map (\<lambda>c. lower (strip (decode_utf8_sig c))) (rows ! i);
               data = drop (i + 1) rows
           in case data_frame data header of
                Inl e \<Rightarrow> Inl e
              | Inr df \<Rightarrow> Inr (header, dropna_all df)))"

text \<open>
  \<^verbatim>\<open>df[name]\<close>: pandas addresses a column by its label. The model reads it as the column
  at the label's position, which is what pandas does when the label names one column.
\<close>

fun position :: "string \<Rightarrow> string list \<Rightarrow> nat" where
  "position name [] = 0"
| "position name (c # cs) = (if c = name then 0 else Suc (position name cs))"

definition cell_of :: "string list \<Rightarrow> string \<Rightarrow> cell list \<Rightarrow> cell" where
  "cell_of header name row = row ! position name header"

definition column :: "string list \<Rightarrow> string \<Rightarrow> cell list list \<Rightarrow> cell list" where
  "column header name df = map (cell_of header name) df"

section \<open>Normalising the fields\<close>

text \<open>\<^verbatim>\<open>str(x)\<close> of a cell.\<close>

definition str_of :: "cell \<Rightarrow> string" where
  "str_of x = (case x of None \<Rightarrow> ''None'' | Some s \<Rightarrow> s)"

text \<open>\<^verbatim>\<open>s.split("/")\<close>: the pieces between the separators, at least one piece.\<close>

fun split_on :: "char \<Rightarrow> string \<Rightarrow> string list" where
  "split_on d [] = [[]]"
| "split_on d (c # cs) =
     (if c = d then [] # split_on d cs
      else (case split_on d cs of
              p # ps \<Rightarrow> (c # p) # ps
            | [] \<Rightarrow> [[c]]))"

text \<open>
  \<^verbatim>\<open>
  def between_third_and_fourth_slash(x):
      parts = str(x).split("/")
      return parts[3] if len(parts) > 3 else x
  \<close>
\<close>

definition between_third_and_fourth_slash :: "cell \<Rightarrow> cell" where
  "between_third_and_fourth_slash x =
     (let parts = split_on CHR ''/'' (str_of x)
      in if length parts > 3 then Some (parts ! 3) else x)"

text \<open>
  \<^verbatim>\<open>pd.to_numeric(..., errors="coerce")\<close> on a text: pandas skips white space at both ends,
  reads an optional sign, digits, an optional period with digits, an optional exponent,
  and needs a digit in the mantissa and nothing left over; otherwise the value is NaN
  (\<open>None\<close> here). The number is carried as the exact decimal value in \<^typ>\<open>rat\<close>: the
  rounding to a 64-bit float, overflow, and the spellings of infinity that pandas also
  reads are outside the model.
\<close>

definition is_space_ascii :: "char \<Rightarrow> bool" where
  "is_space_ascii c \<longleftrightarrow> c \<in> set [CHR '' '', CHR 0x09, CHR 0x0A, CHR 0x0B, CHR 0x0C, CHR 0x0D]"

definition digit_val :: "char \<Rightarrow> nat" where
  "digit_val c =
     (case map_of (zip ''0123456789'' [0, 1, 2, 3, 4, 5, 6, 7, 8, 9]) c of
        None \<Rightarrow> 0
      | Some d \<Rightarrow> d)"

definition digits_val :: "string \<Rightarrow> nat" where
  "digits_val ds = foldl (\<lambda>a c. 10 * a + digit_val c) 0 ds"

definition is_sign :: "char \<Rightarrow> bool" where
  "is_sign c \<longleftrightarrow> c = CHR ''-'' \<or> c = CHR ''+''"

definition exponent_part :: "string \<Rightarrow> int \<times> string" where
  "exponent_part p =
     (case p of
        [] \<Rightarrow> (0, p)
      | c # r \<Rightarrow>
          if c = CHR ''e'' \<or> c = CHR ''E'' then
            (let negative = (case r of [] \<Rightarrow> False | s # _ \<Rightarrow> s = CHR ''-'');
                 r1 = (case r of [] \<Rightarrow> r | s # t \<Rightarrow> if is_sign s then t else r);
                 ds = takeWhile is_digit r1
             in if ds = [] then (0, p)
                else (if negative then - int (digits_val ds) else int (digits_val ds),
                      dropWhile is_digit r1))
          else (0, p))"

definition scale10 :: "rat \<Rightarrow> int \<Rightarrow> rat" where
  "scale10 x e = (if 0 \<le> e then x * 10 ^ nat e else x / 10 ^ nat (- e))"

definition xstrtod :: "string \<Rightarrow> rat option" where
  "xstrtod str =
     (let p0 = dropWhile is_space_ascii str;
          negative = (case p0 of [] \<Rightarrow> False | c # _ \<Rightarrow> c = CHR ''-'');
          p1 = (case p0 of [] \<Rightarrow> p0 | c # r \<Rightarrow> if is_sign c then r else p0);
          ip = takeWhile is_digit p1;
          p2 = dropWhile is_digit p1;
          has_point = (case p2 of [] \<Rightarrow> False | c # _ \<Rightarrow> c = CHR ''.'');
          fp = (if has_point then takeWhile is_digit (tl p2) else []);
          p3 = (if has_point then dropWhile is_digit (tl p2) else p2)
      in if ip = [] \<and> fp = [] then None
         else
           (let mantissa = of_nat (digits_val (ip @ fp)) / 10 ^ length fp;
                number = (if negative then - mantissa else mantissa);
                ex = exponent_part p3;
                p5 = dropWhile is_space_ascii (snd ex)
            in if p5 = [] then Some (scale10 number (fst ex)) else None))"

definition to_numeric :: "cell list \<Rightarrow> rat option list" where
  "to_numeric series = map (\<lambda>x. case x of None \<Rightarrow> None | Some s \<Rightarrow> xstrtod s) series"

text \<open>
  \<^verbatim>\<open>
  def clean_number(series):
      cleaned = (
          series.astype(str)
                .str.replace(r"[^\d\.-]", "", regex=True)
                .replace("", "0")
      )
      return pd.to_numeric(cleaned, errors="coerce").fillna(0.0)
  \<close>
\<close>

definition astype_str :: "cell list \<Rightarrow> string list" where
  "astype_str series = map str_of series"

definition kept :: "char \<Rightarrow> bool" where
  "kept c \<longleftrightarrow> is_digit c \<or> c = CHR ''.'' \<or> c = CHR ''-''"

definition str_replace_unkept :: "string list \<Rightarrow> string list" where
  "str_replace_unkept series = map (filter kept) series"

definition replace_empty :: "string list \<Rightarrow> string list" where
  "replace_empty series = map (\<lambda>s. if s = [] then ''0'' else s) series"

definition fillna_zero :: "rat option list \<Rightarrow> rat list" where
  "fillna_zero series = map (\<lambda>v. case v of None \<Rightarrow> 0 | Some r \<Rightarrow> r) series"

definition clean_number :: "cell list \<Rightarrow> rat list" where
  "clean_number series =
     fillna_zero (to_numeric (map Some (replace_empty (str_replace_unkept (astype_str series)))))"

text \<open>The number \<^const>\<open>clean_number\<close> yields for one cell.\<close>

definition clean_value :: "cell \<Rightarrow> rat" where
  "clean_value x = hd (clean_number [x])"

section \<open>Assembling the ledger\<close>

record tx =
  serial :: "rat option"
  tran_date :: cell
  particulars :: cell
  amount :: rat

text \<open>
  \<^verbatim>\<open>.fillna(method="ffill")\<close>, in the pandas versions that accept the \<^verbatim>\<open>method\<close> argument: a
  missing value takes the last value seen before it, if any.
\<close>

fun ffill_from :: "'a option \<Rightarrow> 'a option list \<Rightarrow> 'a option list" where
  "ffill_from seen [] = []"
| "ffill_from seen (x # xs) =
     (case x of
        None \<Rightarrow> seen # ffill_from seen xs
      | Some v \<Rightarrow> Some v # ffill_from (Some v) xs)"

definition fillna_ffill :: "'a option list \<Rightarrow> 'a option list" where
  "fillna_ffill series = ffill_from None series"

text \<open>
  The \<^verbatim>\<open>Sl. No.\<close> column of section 8 of the script before \<^verbatim>\<open>pd.to_numeric\<close> and the
  forward fill: the bound column, or \<^verbatim>\<open>range(1, len(cleaned) + 1)\<close> when none was found
  (integers, which \<^verbatim>\<open>pd.to_numeric\<close> leaves as they are).
\<close>

definition slno_numeric :: "binding \<Rightarrow> string list \<Rightarrow> cell list list \<Rightarrow> rat option list" where
  "slno_numeric b header df =
     (case slno_col b of
        None \<Rightarrow> map (\<lambda>n. Some (of_nat n)) [1 ..< length df + 1]
      | Some c \<Rightarrow> to_numeric (column header c df))"

text \<open>
  Sections 5, 7 and 8 of the script up to the forward fill, row by row in the order of
  the table:
  \<^verbatim>\<open>
  df[particol] = df[particol].apply(between_third_and_fourth_slash)
  df[withdraw_col] = clean_number(df[withdraw_col])
  df[deposit_col]  = clean_number(df[deposit_col])
  df["amount"]     = df[deposit_col] - df[withdraw_col]
  ...
  cleaned["Sl. No."] = pd.to_numeric(cleaned["Sl. No."], errors="coerce").fillna(method="ffill")
  \<close>
\<close>

definition mk_tx :: "rat option \<Rightarrow> cell \<Rightarrow> cell \<Rightarrow> rat \<Rightarrow> tx" where
  "mk_tx s d p a = \<lparr>serial = s, tran_date = d, particulars = p, amount = a\<rparr>"

definition assemble :: "binding \<Rightarrow> string list \<Rightarrow> cell list list \<Rightarrow> tx list" where
  "assemble b header df =
     (let parti = map between_third_and_fourth_slash (column header (particol b) df);
          withdrawal = clean_number (column header (withdraw_col b) df);
          deposit = clean_number (column header (deposit_col b) df);
          amounts = map2 (\<lambda>d w. d - w) deposit withdrawal;
          dates = column header (date_col b) df;
          serials = fillna_ffill (slno_numeric b header df)
      in map (\<lambda>i. mk_tx (serials ! i) (dates ! i) (parti ! i) (amounts ! i)) [0 ..< length df])"

text \<open>
  The script writes each column back into the table under its label and selects by label
  again. The row-wise reading above is what those steps compute when the bound labels are
  pairwise different, each names exactly one column of the header, and the header has at
  most one column already called \<^verbatim>\<open>amount\<close>. Outside of that, a selection is a sub-table
  or two fields share one overwritten column; such tables are left out of the model.
\<close>

definition bound_labels :: "binding \<Rightarrow> string list" where
  "bound_labels b =
     (case slno_col b of None \<Rightarrow> [] | Some c \<Rightarrow> [c]) @
     [date_col b, particol b, withdraw_col b, deposit_col b]"

definition labels_unambiguous :: "string list \<Rightarrow> binding \<Rightarrow> bool" where
  "labels_unambiguous header b \<longleftrightarrow>
     distinct (bound_labels b) \<and>
     list_all (\<lambda>c. count_list header c = 1) (bound_labels b) \<and>
     count_list header ''amount'' \<le> 1"

definition prepare :: "string list list \<Rightarrow> failure + (binding \<times> tx list)" where
  "prepare rows =
     (case load rows of
        Inl e \<Rightarrow> Inl e
      | Inr (header, df) \<Rightarrow>
     (case identify_columns header of
        Inl e \<Rightarrow> Inl e
      | Inr b \<Rightarrow>
          if labels_unambiguous header b then Inr (b, assemble b header df)
          else Inl Ambiguous_columns))"

section \<open>The final order\<close>

text \<open>
  \<^verbatim>\<open>cleaned.sort_values("Sl. No.", inplace=True, ignore_index=True)\<close>. The call leaves
  \<^verbatim>\<open>kind\<close> at its default \<^verbatim>\<open>"quicksort"\<close> and \<^verbatim>\<open>na_position\<close> at \<^verbatim>\<open>"last"\<close>. pandas sorts the rows
  that have a key with the chosen algorithm and appends the rows without a key in the
  order they had. It documents \<^verbatim>\<open>"quicksort"\<close> as not stable, so the model fixes what every
  sort guarantees and leaves the order among equal keys open: \<open>sort_values rows out\<close>
  says that \<open>out\<close> is an admissible result for \<open>rows\<close>.
\<close>

definition has_serial :: "tx \<Rightarrow> bool" where
  "has_serial t \<longleftrightarrow> serial t \<noteq> None"

definition serial_key :: "tx \<Rightarrow> rat" where
  "serial_key t = (case serial t of None \<Rightarrow> 0 | Some v \<Rightarrow> v)"

definition sort_values :: "tx list \<Rightarrow> tx list \<Rightarrow> bool" where
  "sort_values rows out \<longleftrightarrow>
     (let n = length (filter has_serial rows)
      in mset (take n out) = mset (filter has_serial rows) \<and>
         sorted (map serial_key (take n out)) \<and>
         drop n out = filter (\<lambda>t. \<not> has_serial t) rows)"


section \<open>The run\<close>

text \<open>
  What a run leaves behind: the lines printed on standard output, the file at
  \<^verbatim>\<open>OUT_PATH\<close> (\<open>None\<close> while there is none), and the exit status. \<^verbatim>\<open>sys.exit\<close> with a message
  and an uncaught exception both end the process with status 1 and print on standard
  error only. \<^verbatim>\<open>to_csv\<close> is the last step but one; nothing before it touches the file.
  \<open>run rows w res\<close> says that \<open>res\<close> (exit status and world) is a possible outcome of
  the script on the ledger \<open>rows\<close> started in the world \<open>w\<close>. It is a relation because the
  final sort leaves the order among equal serials open; on a table outside the model
  (\<open>Ambiguous_columns\<close>) it constrains nothing.
\<close>

datatype message =
    Not_found_line "keyword list"
  | Detected_headers_line "string list"
  | Matched_columns_line binding
  | Written_line

record world =
  stdout :: "message list"
  out_file :: "tx list option"

definition print :: "message list \<Rightarrow> world \<Rightarrow> world" where
  "print ms w = w\<lparr>stdout := stdout w @ ms\<rparr>"

definition run :: "string list list \<Rightarrow> world \<Rightarrow> nat \<times> world \<Rightarrow> bool" where
  "run rows w res \<longleftrightarrow>
     (case prepare rows of
        Inl Header_not_found \<Rightarrow> res = (1, w)
      | Inl Frame_mismatch \<Rightarrow> res = (1, w)
      | Inl (Column_not_found kws hs) \<Rightarrow>
          res = (1, print [Not_found_line kws, Detected_headers_line hs] w)
      | Inl Ambiguous_columns \<Rightarrow> True
      | Inr (b, ledger) \<Rightarrow>
          (case out_file (snd res) of
             None \<Rightarrow> False
           | Some out \<Rightarrow>
               sort_values ledger out \<and>
               res = (0, (print [Matched_columns_line b, Written_line] w)\<lparr>out_file := Some out\<rparr>)))"

section \<open>Properties of the text operations\<close>

lemma starts_with_iff: "starts_with k s \<longleftrightarrow> (\<exists>q. s = k @ q)"
  by (induction k s rule: starts_with.induct) auto

lemma contains_iff: "contains k s \<longleftrightarrow> (\<exists>p q. s = p @ k @ q)"
proof (induction s)
  case Nil
  then show ?case by auto
next
  case (Cons c cs)
  show ?case
  proof
    assume "contains k (c # cs)"
    then consider "starts_with k (c # cs)" | "contains k cs" by auto
    then show "\<exists>p q. c # cs = p @ k @ q"
    proof cases
      case 1
      then obtain q where "c # cs = k @ q" by (auto simp: starts_with_iff)
      then have "c # cs = [] @ k @ q" by simp
      then show ?thesis by blast
    next
      case 2
      then obtain p q where "cs = p @ k @ q" using Cons.IH by blast
      then have "c # cs = (c # p) @ k @ q" by simp
      then show ?thesis by blast
    qed
  next
    assume "\<exists>p q. c # cs = p @ k @ q"
    then obtain p q where pq: "c # cs = p @ k @ q" by blast
    show "contains k (c # cs)"
    proof (cases p)
      case Nil
      then have "starts_with k (c # cs)" using pq by (auto simp: starts_with_iff)
      then show ?thesis by simp
    next
      case (Cons a p')
      then have "cs = p' @ k @ q" using pq by simp
      then have "contains k cs" using Cons.IH by blast
      then show ?thesis by simp
    qed
  qed
qed

lemma header_scan_Some:
  "header_scan n rows = Some i \<longleftrightarrow>
     n \<le> i \<and> i - n < length rows \<and> is_header_row (rows ! (i - n)) \<and>
     (\<forall>j < i - n. \<not> is_header_row (rows ! j))"
proof (induction rows arbitrary: n)
  case Nil
  then show ?case by simp
next
  case (Cons row rest)
  show ?case
  proof (cases "is_header_row row")
    case True
    then show ?thesis by (auto simp: nth_Cons split: nat.splits)
  next
    case False
    have "header_scan n (row # rest) = Some i \<longleftrightarrow> header_scan (Suc n) rest = Some i"
      using False by simp
    also have "\<dots> \<longleftrightarrow> Suc n \<le> i \<and> i - Suc n < length rest \<and> is_header_row (rest ! (i - Suc n)) \<and>
        (\<forall>j < i - Suc n. \<not> is_header_row (rest ! j))"
      by (rule Cons.IH)
    also have "\<dots> \<longleftrightarrow> n \<le> i \<and> i - n < length (row # rest) \<and> is_header_row ((row # rest) ! (i - n)) \<and>
        (\<forall>j < i - n. \<not> is_header_row ((row # rest) ! j))"
    proof (cases "i - n")
      case 0
      then show ?thesis using False by auto
    next
      case (Suc m)
      then have eq: "i - Suc n = m" "n \<le> i" "Suc n \<le> i" by auto
      have "(\<forall>j < Suc m. \<not> is_header_row ((row # rest) ! j)) \<longleftrightarrow> (\<forall>j < m. \<not> is_header_row (rest ! j))"
        using False by (auto simp: nth_Cons less_Suc_eq_0_disj split: nat.splits)
      then show ?thesis using Suc eq by simp
    qed
    finally show ?thesis .
  qed
qed

lemma header_scan_None:
  "header_scan n rows = None \<longleftrightarrow> (\<forall>r \<in> set rows. \<not> is_header_row r)"
  by (induction rows arbitrary: n) auto

section \<open>The header locator\<close>

lemma is_header_row_ex1: "is_header_row [''Tran Date'', ''Particulars'']"
  by (simp add: is_header_row_def joined_row_def lower_def strip_def is_space_def lower_char_def)

lemma is_header_row_ex2: "\<not> is_header_row [''Federal Bank'']"
  by (simp add: is_header_row_def joined_row_def lower_def strip_def is_space_def lower_char_def)

text \<open>
  Claim C2, as the code has it. The header locator returns the index of the first row
  whose cells, trimmed, lower-cased and joined by single blanks, contain \<^verbatim>\<open>date\<close> and at
  least one of \<^verbatim>\<open>particular\<close>, \<^verbatim>\<open>narration\<close>, \<^verbatim>\<open>description\<close>; it returns nothing exactly
  when no row qualifies. The index is that of the first qualifying row: no row before it
  qualifies.
\<close>

theorem header_row_idx_first_qualifying:
  "(header_row_idx rows = Some i \<longleftrightarrow>
      i < length rows \<and> is_header_row (rows ! i) \<and> (\<forall>j < i. \<not> is_header_row (rows ! j))) \<and>
   (header_row_idx rows = None \<longleftrightarrow> (\<forall>r \<in> set rows. \<not> is_header_row r)) \<and>
   (is_header_row row \<longleftrightarrow>
      (\<exists>p q. joined_row row = p @ ''date'' @ q) \<and>
      (\<exists>k \<in> {''particular'', ''narration'', ''description''}. \<exists>p q. joined_row row = p @ k @ q))"
proof -
  have a: "header_row_idx rows = Some i \<longleftrightarrow>
      i < length rows \<and> is_header_row (rows ! i) \<and> (\<forall>j < i. \<not> is_header_row (rows ! j))"
    unfolding header_row_idx_def using header_scan_Some [of 0 rows i] by simp
  have b: "header_row_idx rows = None \<longleftrightarrow> (\<forall>r \<in> set rows. \<not> is_header_row r)"
    unfolding header_row_idx_def by (rule header_scan_None)
  have c: "is_header_row row \<longleftrightarrow>
      (\<exists>p q. joined_row row = p @ ''date'' @ q) \<and>
      (\<exists>k \<in> {''particular'', ''narration'', ''description''}. \<exists>p q. joined_row row = p @ k @ q)"
    unfolding is_header_row_def Let_def contains_iff by simp
  from a b c show ?thesis by blast
qed

text \<open>
  A ledger with a title line, the header and a second line that would qualify as well:
  the locator answers 1, the first of the two.
\<close>

theorem header_row_idx_first_qualifying_witness:
  "header_row_idx
     [[''Federal Bank''], [''Tran Date'', ''Particulars''], [''Tran Date'', ''Particulars'']] = Some 1"
proof -
  let ?rows = "[[''Federal Bank''], [''Tran Date'', ''Particulars''], [''Tran Date'', ''Particulars'']]"
  have "1 < length ?rows \<and> is_header_row (?rows ! 1) \<and> (\<forall>j < 1. \<not> is_header_row (?rows ! j))"
    using is_header_row_ex1 is_header_row_ex2 by simp
  then show ?thesis
    using header_row_idx_first_qualifying [of ?rows 1] by blast
qed

text \<open>
  With the tokens as the claim lists them (description, narration,
  summary-of-transaction) the header \<^verbatim>\<open>Tran Date, Particulars\<close> would not qualify; the
  code takes it, because its third token is \<^verbatim>\<open>particular\<close>.
\<close>

theorem header_tokens_counterexample:
  "header_row_idx [[''Tran Date'', ''Particulars'']] = Some 0 \<and>
   spec_header_scan 0 [[''Tran Date'', ''Particulars'']] = None"
  by (simp add: header_row_idx_def is_header_row_def spec_is_header_row_def joined_row_def
      lower_def strip_def is_space_def lower_char_def)

section \<open>The column resolver\<close>








section \<open>Numeric cleaning\<close>

lemma xstrtod_empty: "xstrtod [] = None"
  by (simp add: xstrtod_def)

lemma xstrtod_zero: "xstrtod ''0'' = Some 0"
  by (simp add: xstrtod_def is_space_ascii_def is_sign_def is_digit_def digits_val_def
      digit_val_def exponent_part_def scale10_def)

lemma clean_value_eq:
  "clean_value x = (case xstrtod (filter kept (str_of x)) of None \<Rightarrow> 0 | Some v \<Rightarrow> v)"
  by (simp add: clean_value_def clean_number_def fillna_zero_def to_numeric_def replace_empty_def
      str_replace_unkept_def astype_str_def xstrtod_zero xstrtod_empty)

lemma clean_number_map: "clean_number series = map clean_value series"
  by (simp add: clean_value_def clean_number_def fillna_zero_def to_numeric_def replace_empty_def
      str_replace_unkept_def astype_str_def)




section \<open>Description extraction\<close>

lemma split_on_nonempty: "split_on d s \<noteq> []"
  by (induction s) (auto split: list.splits)

lemma split_on_no_sep: "p \<in> set (split_on d s) \<Longrightarrow> d \<notin> set p"
proof (induction s arbitrary: p)
  case Nil
  then show ?case by simp
next
  case (Cons c cs)
  show ?case
  proof (cases "c = d")
    case True
    then show ?thesis using Cons by auto
  next
    case False
    obtain q qs where q: "split_on d cs = q # qs"
      using split_on_nonempty [of d cs] by (cases "split_on d cs") auto
    then have "p = c # q \<or> p \<in> set qs" using Cons.prems False by auto
    then show ?thesis using Cons.IH q False by auto
  qed
qed

lemma join_split_on: "join [d] (split_on d s) = s"
proof (induction s)
  case Nil
  then show ?case by simp
next
  case (Cons c cs)
  obtain q qs where q: "split_on d cs = q # qs"
    using split_on_nonempty [of d cs] by (cases "split_on d cs") auto
  show ?case
  proof (cases "c = d")
    case True
    then show ?thesis using Cons.IH q by simp
  next
    case False
    have "join [d] ((c # q) # qs) = c # join [d] (q # qs)"
      by (cases qs) auto
    then show ?thesis using False q Cons.IH by simp
  qed
qed

lemma length_split_on: "length (split_on d s) = Suc (count_list s d)"
proof (induction s)
  case Nil
  then show ?case by simp
next
  case (Cons c cs)
  obtain q qs where q: "split_on d cs = q # qs"
    using split_on_nonempty [of d cs] by (cases "split_on d cs") auto
  then show ?case using Cons.IH by auto
qed

lemma ex_upi: "split_on CHR ''/'' ''UPI/123/456/GROCERY/789'' = [''UPI'', ''123'', ''456'', ''GROCERY'', ''789'']"
  by simp

lemma ex_cash: "split_on CHR ''/'' ''CASH DEPOSIT'' = [''CASH DEPOSIT'']"
  by simp

text \<open>
  Claim C5. For every description text, the pieces of \<^verbatim>\<open>split("/")\<close> are the runs between
  the slashes (joined by slashes they give the text back, and none contains a slash).
  With at least 4 pieces the field becomes the piece at index 3; with fewer it stays the
  text it was. \<^verbatim>\<open>UPI/123/456/GROCERY/789\<close> becomes \<^verbatim>\<open>GROCERY\<close>, and \<^verbatim>\<open>CASH DEPOSIT\<close> stays.
\<close>

theorem description_fourth_segment:
  "join ''/'' (split_on CHR ''/'' s) = s \<and>
   (\<forall>p \<in> set (split_on CHR ''/'' s). CHR ''/'' \<notin> set p) \<and>
   (4 \<le> length (split_on CHR ''/'' s) \<longrightarrow>
      between_third_and_fourth_slash (Some s) = Some (split_on CHR ''/'' s ! 3)) \<and>
   (length (split_on CHR ''/'' s) < 4 \<longrightarrow> between_third_and_fourth_slash (Some s) = Some s) \<and>
   between_third_and_fourth_slash (Some ''UPI/123/456/GROCERY/789'') = Some ''GROCERY'' \<and>
   between_third_and_fourth_slash (Some ''CASH DEPOSIT'') = Some ''CASH DEPOSIT''"
proof -
  have a: "join ''/'' (split_on CHR ''/'' s) = s"
    by (rule join_split_on)
  have b: "\<forall>p \<in> set (split_on CHR ''/'' s). CHR ''/'' \<notin> set p"
    using split_on_no_sep by blast
  have c: "4 \<le> length (split_on CHR ''/'' s) \<longrightarrow>
      between_third_and_fourth_slash (Some s) = Some (split_on CHR ''/'' s ! 3)"
    by (simp add: between_third_and_fourth_slash_def str_of_def Let_def)
  have d: "length (split_on CHR ''/'' s) < 4 \<longrightarrow> between_third_and_fourth_slash (Some s) = Some s"
    by (simp add: between_third_and_fourth_slash_def str_of_def Let_def)
  have e: "between_third_and_fourth_slash (Some ''UPI/123/456/GROCERY/789'') = Some ''GROCERY''"
    unfolding between_third_and_fourth_slash_def str_of_def Let_def option.case ex_upi by simp
  have f: "between_third_and_fourth_slash (Some ''CASH DEPOSIT'') = Some ''CASH DEPOSIT''"
    unfolding between_third_and_fourth_slash_def str_of_def Let_def option.case ex_cash by simp
  from a b c d e f show ?thesis by blast
qed

text \<open>One text with exactly four pieces and one with three.\<close>

theorem description_fourth_segment_witness:
  "4 \<le> length (split_on CHR ''/'' ''NEFT/a/b/RENT'') \<and>
   between_third_and_fourth_slash (Some ''NEFT/a/b/RENT'') = Some ''RENT'' \<and>
   length (split_on CHR ''/'' ''a/b/c'') < 4 \<and>
   between_third_and_fourth_slash (Some ''a/b/c'') = Some ''a/b/c''"
proof -
  have s1: "split_on CHR ''/'' ''NEFT/a/b/RENT'' = [''NEFT'', ''a'', ''b'', ''RENT'']" by simp
  have s2: "split_on CHR ''/'' ''a/b/c'' = [''a'', ''b'', ''c'']" by simp
  have l1: "4 \<le> length (split_on CHR ''/'' ''NEFT/a/b/RENT'')" unfolding s1 by simp
  have l2: "length (split_on CHR ''/'' ''a/b/c'') < 4" unfolding s2 by simp
  have "between_third_and_fourth_slash (Some ''NEFT/a/b/RENT'') = Some (split_on CHR ''/'' ''NEFT/a/b/RENT'' ! 3)"
    using description_fourth_segment [of "''NEFT/a/b/RENT''"] l1 by blast
  moreover have "between_third_and_fourth_slash (Some ''a/b/c'') = Some ''a/b/c''"
    using description_fourth_segment [of "''a/b/c''"] l2 by blast
  ultimately show ?thesis using l1 l2 unfolding s1 by simp
qed

section \<open>Sign of the cleaned values\<close>

lemma scale10_nonneg: "0 \<le> x \<Longrightarrow> 0 \<le> scale10 x e"
  by (simp add: scale10_def)

lemma xstrtod_nonneg:
  assumes "CHR ''-'' \<notin> set s" and "xstrtod s = Some v"
  shows "0 \<le> v"
proof -
  define p0 where "p0 = dropWhile is_space_ascii s"
  have "set p0 \<subseteq> set s"
    unfolding p0_def by (rule set_dropWhileD [THEN subsetI])
  then have "CHR ''-'' \<notin> set p0" using assms(1) by blast
  then have neg: "\<not> (case p0 of [] \<Rightarrow> False | c # _ \<Rightarrow> c = CHR ''-'')"
    by (cases p0) auto
  have "xstrtod s = Some v" by (rule assms(2))
  then show ?thesis
    unfolding xstrtod_def p0_def [symmetric] Let_def
    using neg by (auto split: if_splits intro!: scale10_nonneg)
qed

lemma xstrtod_500: "xstrtod ''500.00'' = Some 500"
  by (simp add: xstrtod_def is_space_ascii_def is_sign_def is_digit_def digits_val_def
      digit_val_def exponent_part_def scale10_def)

lemma xstrtod_minus5: "xstrtod ''-5'' = Some (- 5)"
  by (simp add: xstrtod_def is_space_ascii_def is_sign_def is_digit_def digits_val_def
      digit_val_def exponent_part_def scale10_def)

lemma clean_value_500: "clean_value (Some ''500.00'') = 500"
  by (simp add: clean_value_eq str_of_def kept_def is_digit_def xstrtod_500)


lemma clean_value_None: "clean_value None = 0"
  by (simp add: clean_value_eq str_of_def kept_def is_digit_def xstrtod_empty)

text \<open>
  Claim C6, as the code has it. The cleaning keeps minus signs, so a cleaned withdrawal
  or deposit can be negative. For every column whose cells contain no minus sign (a
  missing cell counts as the text \<^verbatim>\<open>None\<close>), every cleaned value is greater than or equal
  to 0.
\<close>

theorem clean_number_nonneg_without_minus:
  assumes "\<forall>x \<in> set series. CHR ''-'' \<notin> set (str_of x)"
  shows "\<forall>v \<in> set (clean_number series). 0 \<le> v"
proof -
  have "0 \<le> clean_value x" if "CHR ''-'' \<notin> set (str_of x)" for x
  proof (cases "xstrtod (filter kept (str_of x))")
    case None
    then show ?thesis by (simp add: clean_value_eq)
  next
    case (Some v)
    have "CHR ''-'' \<notin> set (filter kept (str_of x))" using that by simp
    then have "0 \<le> v" using Some by (rule xstrtod_nonneg)
    then show ?thesis using Some by (simp add: clean_value_eq)
  qed
  then show ?thesis using assms by (auto simp: clean_number_map)
qed

text \<open>A column with an amount and a missing cell.\<close>

theorem clean_number_nonneg_without_minus_witness:
  "CHR ''-'' \<notin> set (str_of (Some ''500.00'')) \<and> CHR ''-'' \<notin> set (str_of None) \<and>
   clean_number [Some ''500.00'', None] = [500, 0] \<and>
   0 \<le> clean_number [Some ''500.00'', None] ! 0 \<and>
   0 \<le> clean_number [Some ''500.00'', None] ! 1"
proof -
  have h: "\<forall>x \<in> set [Some ''500.00'', None]. CHR ''-'' \<notin> set (str_of x)"
    by (simp add: str_of_def)
  have v: "clean_number [Some ''500.00'', None] = [500, 0]"
    by (simp add: clean_number_map clean_value_500 clean_value_None)
  have "\<forall>v \<in> set (clean_number [Some ''500.00'', None]). 0 \<le> v"
    by (rule clean_number_nonneg_without_minus [OF h])
  moreover have "length (clean_number [Some ''500.00'', None]) = 2"
    by (simp add: clean_number_map)
  ultimately have "0 \<le> clean_number [Some ''500.00'', None] ! 0"
      "0 \<le> clean_number [Some ''500.00'', None] ! 1"
    by (metis nth_mem one_less_numeral_iff pos2 semiring_norm(76))+
  then show ?thesis using h v by simp
qed

text \<open>The cell \<^verbatim>\<open>-5\<close> cleans to the negative number -5.\<close>

theorem clean_number_negative_counterexample:
  "clean_number [Some ''-5''] = [- 5] \<and> \<not> 0 \<le> hd (clean_number [Some ''-5''])"
  by (simp add: clean_number_map clean_value_eq str_of_def kept_def is_digit_def xstrtod_minus5)

section \<open>Forward fill and the assembled rows\<close>

lemma length_ffill_from: "length (ffill_from seen xs) = length xs"
  by (induction xs arbitrary: seen) (auto split: option.splits)




lemma length_clean_number: "length (clean_number series) = length series"
  by (simp add: clean_number_map)



lemma length_fabricated: "length [1 ..< n + 1] = n"
  by (simp del: upt_Suc)

lemma length_slno_numeric: "length (slno_numeric b header df) = length df"
  by (cases "slno_col b")
    (simp_all add: slno_numeric_def to_numeric_def column_def del: upt_Suc)



section \<open>Properties of the final order\<close>















section \<open>Serial numbers\<close>











section \<open>Missing mandatory columns\<close>

lemma find_optional: "\<exists>r. find columns kws False = Inr r"
  by (simp add: find_def split: list.splits)

lemma mandatory_col_unmatched:
  "\<forall>c \<in> set columns. \<not> pat_search kws c \<Longrightarrow>
   mandatory_col columns kws = Inl (Column_not_found kws columns)"
proof -
  assume "\<forall>c \<in> set columns. \<not> pat_search kws c"
  then have "filter (pat_search kws) columns = []" by (simp add: filter_empty_conv)
  then show ?thesis by (simp add: mandatory_col_def find_def)
qed

lemma mandatory_col_matched:
  "\<not> (\<forall>c \<in> set columns. \<not> pat_search kws c) \<Longrightarrow> \<exists>c. mandatory_col columns kws = Inr c"
proof -
  assume "\<not> (\<forall>c \<in> set columns. \<not> pat_search kws c)"
  then have "filter (pat_search kws) columns \<noteq> []" by (simp add: filter_empty_conv)
  then obtain m ms where "filter (pat_search kws) columns = m # ms"
    by (cases "filter (pat_search kws) columns") auto
  then show ?thesis by (simp add: mandatory_col_def find_def)
qed

lemma identify_columns_missing:
  assumes "kws \<in> set [date_keywords, parti_keywords, withdraw_keywords, deposit_keywords]"
    and "\<forall>c \<in> set header. \<not> pat_search kws c"
  shows "\<exists>kws' \<in> set [date_keywords, parti_keywords, withdraw_keywords, deposit_keywords].
           (\<forall>c \<in> set header. \<not> pat_search kws' c) \<and>
           identify_columns header = Inl (Column_not_found kws' header)"
proof -
  let ?un = "\<lambda>k. \<forall>c \<in> set header. \<not> pat_search k c"
  obtain sl where sl: "find header slno_keywords False = Inr sl"
    using find_optional by blast
  show ?thesis
  proof (cases "?un date_keywords")
    case True
    then have "identify_columns header = Inl (Column_not_found date_keywords header)"
      by (simp add: identify_columns_def sl mandatory_col_unmatched)
    then show ?thesis using True by simp
  next
    case d: False
    then obtain dc where dc: "mandatory_col header date_keywords = Inr dc"
      using mandatory_col_matched by blast
    show ?thesis
    proof (cases "?un parti_keywords")
      case True
      then have "identify_columns header = Inl (Column_not_found parti_keywords header)"
        by (simp add: identify_columns_def sl dc mandatory_col_unmatched)
      then show ?thesis using True by simp
    next
      case p: False
      then obtain pc where pc: "mandatory_col header parti_keywords = Inr pc"
        using mandatory_col_matched by blast
      show ?thesis
      proof (cases "?un withdraw_keywords")
        case True
        then have "identify_columns header = Inl (Column_not_found withdraw_keywords header)"
          by (simp add: identify_columns_def sl dc pc mandatory_col_unmatched)
        then show ?thesis using True by simp
      next
        case w: False
        then obtain wc where wc: "mandatory_col header withdraw_keywords = Inr wc"
          using mandatory_col_matched by blast
        have "kws = deposit_keywords" using assms d p w by auto
        then have True: "?un deposit_keywords" using assms(2) by simp
        then have "identify_columns header = Inl (Column_not_found deposit_keywords header)"
          by (simp add: identify_columns_def sl dc pc wc mandatory_col_unmatched)
        then show ?thesis using True by simp
      qed
    qed
  qed
qed

lemma failure_never_writes:
  assumes "prepare rows = Inl e" and "e \<noteq> Ambiguous_columns" and "run rows w res"
  shows "fst res = 1 \<and> out_file (snd res) = out_file w"
  using assms by (cases e) (auto simp: run_def print_def)

lemma load_no_withdrawal:
  "load [[''Tran Date'', ''Particulars'', ''Deposit''], [''01-01'', ''ATM'', ''5'']] =
     Inr ([''tran date'', ''particulars'', ''deposit''], [[Some ''01-01'', Some ''ATM'', Some ''5'']])"
  by (simp add: load_def header_row_idx_def is_header_row_def joined_row_def lower_def strip_def
      is_space_def lower_char_def decode_utf8_sig_def bom_def data_frame_def pad_def dropna_all_def)

lemma header_no_withdrawal:
  "\<forall>c \<in> set [''tran date'', ''particulars'', ''deposit'']. \<not> pat_search withdraw_keywords c"
  by (simp add: pat_search_def withdraw_keywords_def lit_def)

lemma header_has_others:
  "pat_search date_keywords ''tran date''"
  "pat_search parti_keywords ''particulars''"
  "pat_search deposit_keywords ''deposit''"
  by (simp_all add: pat_search_def date_keywords_def parti_keywords_def deposit_keywords_def lit_def)


text \<open>
  Claim C9. Once the header is located and the table built, if a mandatory field (date,
  description, withdrawal, deposit) matches no header column, the run has exactly one
  outcome: exit status 1, the keyword list of the first unmatched mandatory field and
  the detected header cells printed, and the output file as it was before the run (the
  write step is not reached).
\<close>

theorem missing_mandatory_column_exits:
  assumes "load rows = Inr (header, df)"
    and "kws \<in> set [date_keywords, parti_keywords, withdraw_keywords, deposit_keywords]"
    and "\<forall>c \<in> set header. \<not> pat_search kws c"
  shows "\<exists>kws' \<in> set [date_keywords, parti_keywords, withdraw_keywords, deposit_keywords].
           (\<forall>c \<in> set header. \<not> pat_search kws' c) \<and>
           prepare rows = Inl (Column_not_found kws' header) \<and>
           (\<forall>w res. run rows w res \<longleftrightarrow>
              res = (1, print [Not_found_line kws', Detected_headers_line header] w)) \<and>
           (\<forall>w. out_file (print [Not_found_line kws', Detected_headers_line header] w) = out_file w)"
proof -
  obtain kws' where k: "kws' \<in> set [date_keywords, parti_keywords, withdraw_keywords, deposit_keywords]"
      "\<forall>c \<in> set header. \<not> pat_search kws' c"
      "identify_columns header = Inl (Column_not_found kws' header)"
    using identify_columns_missing [OF assms(2,3)] by blast
  have p: "prepare rows = Inl (Column_not_found kws' header)"
    by (simp add: prepare_def assms(1) k(3))
  have r: "run rows w res \<longleftrightarrow> res = (1, print [Not_found_line kws', Detected_headers_line header] w)"
    for w res
    by (simp add: run_def p)
  have o: "out_file (print [Not_found_line kws', Detected_headers_line header] w) = out_file w" for w
    by (simp add: print_def)
  show ?thesis using k(1,2) p r o by blast
qed

text \<open>
  A ledger without any withdrawal or debit column: the run ends with status 1, prints
  the withdrawal keywords and the header, and leaves no output file.
\<close>

theorem missing_mandatory_column_exits_witness:
  "load [[''Tran Date'', ''Particulars'', ''Deposit''], [''01-01'', ''ATM'', ''5'']] =
     Inr ([''tran date'', ''particulars'', ''deposit''], [[Some ''01-01'', Some ''ATM'', Some ''5'']]) \<and>
   run [[''Tran Date'', ''Particulars'', ''Deposit''], [''01-01'', ''ATM'', ''5'']]
     \<lparr>stdout = [], out_file = None\<rparr>
     (1, \<lparr>stdout = [Not_found_line withdraw_keywords,
                     Detected_headers_line [''tran date'', ''particulars'', ''deposit'']],
          out_file = None\<rparr>)"
proof -
  let ?rows = "[[''Tran Date'', ''Particulars'', ''Deposit''], [''01-01'', ''ATM'', ''5'']]"
  let ?h = "[''tran date'', ''particulars'', ''deposit'']"
  let ?w = "\<lparr>stdout = [], out_file = None\<rparr>"
  have m: "withdraw_keywords \<in> set [date_keywords, parti_keywords, withdraw_keywords, deposit_keywords]"
    by simp
  obtain kws' where k:
      "kws' \<in> set [date_keywords, parti_keywords, withdraw_keywords, deposit_keywords]"
      "\<forall>c \<in> set ?h. \<not> pat_search kws' c"
      "\<forall>w res. run ?rows w res \<longleftrightarrow> res = (1, print [Not_found_line kws', Detected_headers_line ?h] w)"
    using missing_mandatory_column_exits [OF load_no_withdrawal m header_no_withdrawal] by blast
  have "kws' = withdraw_keywords"
    using k(1,2) header_has_others by auto
  then have "run ?rows ?w (1, print [Not_found_line withdraw_keywords, Detected_headers_line ?h] ?w)"
    using k(3) by blast
  then show ?thesis using load_no_withdrawal by (simp add: print_def)
qed

section \<open>The signed amount\<close>






end
